theory Spec2Isabelle
  imports Main
begin

unbundle bit_operations_syntax

section \<open>JavaScript numbers\<close>

text \<open>
  Every number the emulator handles is an integer far below \<open>2 ^ 53\<close>, so a JavaScript
  number is modelled as an \<^typ>\<open>int\<close>. The bitwise operators first convert their operands
  to signed 32-bit integers (\<open>ToInt32\<close>); the shift operators use the right operand
  modulo 32. Note that \<open>+\<close> binds tighter than \<open><<\<close> in JavaScript, so the source text
  \<^verbatim>\<open>r.h << 8 + r.l\<close> is \<^verbatim>\<open>r.h << (8 + r.l)\<close>.
\<close>

definition toInt32 :: "int \<Rightarrow> int" where
  "toInt32 x = (x + 2147483648) mod 4294967296 - 2147483648"

definition js_and :: "int \<Rightarrow> int \<Rightarrow> int" where
  "js_and x y = toInt32 x AND toInt32 y"

definition js_or :: "int \<Rightarrow> int \<Rightarrow> int" where
  "js_or x y = toInt32 x OR toInt32 y"

definition js_xor :: "int \<Rightarrow> int \<Rightarrow> int" where
  "js_xor x y = toInt32 x XOR toInt32 y"

definition js_not :: "int \<Rightarrow> int" where
  "js_not x = - toInt32 x - 1"

definition js_shl :: "int \<Rightarrow> int \<Rightarrow> int" where
  "js_shl x y = toInt32 (toInt32 x * 2 ^ nat (y mod 32))"

definition js_shr :: "int \<Rightarrow> int \<Rightarrow> int" where
  "js_shr x y = toInt32 x div 2 ^ nat (y mod 32)"

text \<open>\<^verbatim>\<open>Number.prototype.toString(16)\<close> on an integer.\<close>

definition hexDigit :: "nat \<Rightarrow> char" where
  "hexDigit n = ''0123456789abcdef'' ! n"

fun hexDigits :: "nat \<Rightarrow> string" where
  "hexDigits n = (if n < 16 then [hexDigit n] else hexDigits (n div 16) @ [hexDigit (n mod 16)])"

declare hexDigits.simps [simp del]

definition toString16 :: "int \<Rightarrow> string" where
  "toString16 x = (if x < 0 then CHR ''-'' # hexDigits (nat (- x)) else hexDigits (nat x))"

section \<open>interfaces.ts: the memory interface\<close>

text \<open>
  \<^verbatim>\<open>IMemory\<close> is an interface: the CPU works with any object that implements it. The
  object is modelled as its four methods over a memory state \<open>'m\<close>; the writing methods
  return the new state. Reads do not change the state, and what they return is taken to
  be an integer, as the interface's type \<^verbatim>\<open>number\<close> is everywhere else.
\<close>

record 'm IMemory =
  rb :: "'m \<Rightarrow> int \<Rightarrow> int"
  rw :: "'m \<Rightarrow> int \<Rightarrow> int"
  wb :: "'m \<Rightarrow> int \<Rightarrow> int \<Rightarrow> 'm"
  ww :: "'m \<Rightarrow> int \<Rightarrow> int \<Rightarrow> 'm"

section \<open>cpu.ts: registers and flags\<close>

text \<open>
  The names are those of the source. Three helpers whose names are taken in HOL carry a
  suffix (\<open>and_fn\<close>, \<open>or_fn\<close>, \<open>xor_fn\<close>), the private fields \<^verbatim>\<open>_c\<close> and \<^verbatim>\<open>_r\<close> of the CPU
  are \<open>Cpu_c\<close> and \<open>Cpu_r\<close>, and those of the GPU drop their underscore. The fields of
  the register set are the constants \<open>a\<close>, \<open>b\<close>, \<open>c\<close>, \<open>d\<close>, \<open>e\<close>, \<open>h\<close>, \<open>l\<close>, \<open>f\<close>,
  \<open>pc\<close> and \<open>sp\<close>, so no variable below bears one of these names.
\<close>

record IRegisterSet =
  a :: int
  b :: int
  c :: int
  d :: int
  e :: int
  h :: int
  l :: int
  f :: int
  pc :: int
  sp :: int

text \<open>The \<^verbatim>\<open>const enum Flags\<close>.\<close>

definition Flags_Z :: int where "Flags_Z = 128"
definition Flags_N :: int where "Flags_N = 64"
definition Flags_H :: int where "Flags_H = 32"
definition Flags_C :: int where "Flags_C = 16"

text \<open>\<^verbatim>\<open>keyof IRegisterSet\<close>, with \<^verbatim>\<open>r[key]\<close> read by \<open>getKey\<close> and written by \<open>setKey\<close>.\<close>

datatype Key = Key_a | Key_b | Key_c | Key_d | Key_e | Key_h | Key_l | Key_f | Key_pc | Key_sp

fun getKey :: "IRegisterSet \<Rightarrow> Key \<Rightarrow> int" where
  "getKey r Key_a = a r"
| "getKey r Key_b = b r"
| "getKey r Key_c = c r"
| "getKey r Key_d = d r"
| "getKey r Key_e = e r"
| "getKey r Key_h = h r"
| "getKey r Key_l = l r"
| "getKey r Key_f = f r"
| "getKey r Key_pc = pc r"
| "getKey r Key_sp = sp r"

fun setKey :: "IRegisterSet \<Rightarrow> Key \<Rightarrow> int \<Rightarrow> IRegisterSet" where
  "setKey r Key_a v = r\<lparr>a := v\<rparr>"
| "setKey r Key_b v = r\<lparr>b := v\<rparr>"
| "setKey r Key_c v = r\<lparr>c := v\<rparr>"
| "setKey r Key_d v = r\<lparr>d := v\<rparr>"
| "setKey r Key_e v = r\<lparr>e := v\<rparr>"
| "setKey r Key_h v = r\<lparr>h := v\<rparr>"
| "setKey r Key_l v = r\<lparr>l := v\<rparr>"
| "setKey r Key_f v = r\<lparr>f := v\<rparr>"
| "setKey r Key_pc v = r\<lparr>pc := v\<rparr>"
| "setKey r Key_sp v = r\<lparr>sp := v\<rparr>"

section \<open>cpu.ts: operations\<close>

text \<open>
  An operation mutates the registers and the memory and returns its cycle cost; the model
  returns the cost with the new registers and the new memory state.
\<close>

type_synonym 'm IOperation = "'m IMemory \<Rightarrow> IRegisterSet \<Rightarrow> 'm \<Rightarrow> int \<times> IRegisterSet \<times> 'm"

definition createOp ::
  "('m IMemory \<Rightarrow> IRegisterSet \<Rightarrow> 'm \<Rightarrow> IRegisterSet \<times> 'm) \<Rightarrow> int \<Rightarrow> 'm IOperation" where
  "createOp g cycles = (\<lambda>M r m. (cycles, g M r m))"

definition toSigned :: "int \<Rightarrow> int" where
  "toSigned v = (if v \<le> 127 then v else - (js_and (js_not v + 1) 255))"

text \<open>Resets flags after an operation, setting Z appropriately.\<close>

definition resetFlags :: "IRegisterSet \<Rightarrow> int \<Rightarrow> IRegisterSet" where
  "resetFlags r result =
     (let r = r\<lparr>f := 0\<rparr>
      in if js_and result 255 = 0 then r\<lparr>f := js_or (f r) Flags_Z\<rparr> else r)"

definition add :: "IRegisterSet \<Rightarrow> int \<Rightarrow> IRegisterSet" where
  "add r v =
     (let r = r\<lparr>a := a r + v\<rparr>;
          r = resetFlags r (a r);
          r = (if a r > 255 then r\<lparr>f := js_or (f r) Flags_C\<rparr> else r)
      in r\<lparr>a := js_and (a r) 255\<rparr>)"

definition sub :: "IRegisterSet \<Rightarrow> int \<Rightarrow> IRegisterSet" where
  "sub r v =
     (let r = r\<lparr>a := a r - v\<rparr>;
          r = resetFlags r (a r);
          r = r\<lparr>f := js_or (f r) Flags_N\<rparr>;
          r = (if a r < 0 then r\<lparr>f := js_or (f r) Flags_C\<rparr> else r)
      in r\<lparr>a := js_and (a r) 255\<rparr>)"

definition and_fn :: "IRegisterSet \<Rightarrow> int \<Rightarrow> IRegisterSet" where
  "and_fn r v =
     (let r = r\<lparr>a := js_and (a r) v\<rparr>;
          r = resetFlags r (a r);
          r = (if a r > 255 then r\<lparr>f := js_or (f r) Flags_C\<rparr> else r);
          r = r\<lparr>f := js_or (f r) Flags_H\<rparr>
      in r\<lparr>a := js_and (a r) 255\<rparr>)"

definition or_fn :: "IRegisterSet \<Rightarrow> int \<Rightarrow> IRegisterSet" where
  "or_fn r v =
     (let r = r\<lparr>a := js_or (a r) v\<rparr>;
          r = resetFlags r (a r)
      in r\<lparr>a := js_and (a r) 255\<rparr>)"

definition xor_fn :: "IRegisterSet \<Rightarrow> int \<Rightarrow> IRegisterSet" where
  "xor_fn r v =
     (let r = r\<lparr>a := js_xor (a r) v\<rparr>;
          r = resetFlags r (a r)
      in r\<lparr>a := js_and (a r) 255\<rparr>)"

definition cp :: "IRegisterSet \<Rightarrow> int \<Rightarrow> IRegisterSet" where
  "cp r v =
     (let x = a r - v;
          r = resetFlags r x;
          r = r\<lparr>f := js_or (f r) Flags_N\<rparr>
      in if x < 0 then r\<lparr>f := js_or (f r) Flags_C\<rparr> else r)"

definition inc :: "IRegisterSet \<Rightarrow> Key \<Rightarrow> int \<Rightarrow> IRegisterSet" where
  "inc r key mx =
     (let r = setKey r key (js_and (getKey r key + 1) mx)
      in resetFlags r (getKey r key))"

definition inc2 :: "IRegisterSet \<Rightarrow> Key \<Rightarrow> Key \<Rightarrow> IRegisterSet" where
  "inc2 r key1 key2 =
     (let r = setKey r key2 (js_and (getKey r key2 + 1) 255)
      in if getKey r key2 = 0 then setKey r key1 (js_and (getKey r key1 + 1) 255) else r)"

definition dec :: "IRegisterSet \<Rightarrow> Key \<Rightarrow> int \<Rightarrow> IRegisterSet" where
  "dec r key mx =
     (let r = setKey r key (js_and (getKey r key - 1) mx)
      in resetFlags r (getKey r key))"

definition dec2 :: "IRegisterSet \<Rightarrow> Key \<Rightarrow> Key \<Rightarrow> IRegisterSet" where
  "dec2 r key1 key2 =
     (let r = setKey r key2 (js_and (getKey r key2 - 1) 255)
      in if getKey r key2 = 0 then setKey r key1 (js_and (getKey r key1 - 1) 255) else r)"

definition addHl :: "IRegisterSet \<Rightarrow> int \<Rightarrow> IRegisterSet" where
  "addHl r v =
     (let hl = js_shl (h r) (8 + l r + v);
          r = r\<lparr>f := 0\<rparr>
      in if hl > 65535 then r\<lparr>f := js_or (f r) Flags_C\<rparr> else r)"

definition swap :: "IRegisterSet \<Rightarrow> Key \<Rightarrow> IRegisterSet" where
  "swap r key =
     (let r = setKey r key (js_and (js_or (js_shr (getKey r key) 4) (js_shl (getKey r key) 4)) 255)
      in resetFlags r (getKey r key))"

text \<open>
  The table \<^verbatim>\<open>o\<close> of all CPU operations, in the order of the source. The name mapping
  of the source: \<^verbatim>\<open>(HL)\<close> is \<^verbatim>\<open>HLM\<close>, \<^verbatim>\<open>#\<close> is \<^verbatim>\<open>n\<close>, \<^verbatim>\<open>($FF00+x)\<close> is \<^verbatim>\<open>FFx\<close>. A post-increment
  \<^verbatim>\<open>r.pc++\<close> inside an expression is written as: take the old value \<open>p\<close>, store \<open>p + 1\<close>,
  use \<open>p\<close>.
\<close>

definition LD_A_A :: "'m IOperation" where
  "LD_A_A = createOp (\<lambda>M r m. (r\<lparr>a := a r\<rparr>, m)) 1"

definition LD_A_B :: "'m IOperation" where
  "LD_A_B = createOp (\<lambda>M r m. (r\<lparr>a := b r\<rparr>, m)) 1"

definition LD_A_C :: "'m IOperation" where
  "LD_A_C = createOp (\<lambda>M r m. (r\<lparr>a := c r\<rparr>, m)) 1"

definition LD_A_D :: "'m IOperation" where
  "LD_A_D = createOp (\<lambda>M r m. (r\<lparr>a := d r\<rparr>, m)) 1"

definition LD_A_E :: "'m IOperation" where
  "LD_A_E = createOp (\<lambda>M r m. (r\<lparr>a := e r\<rparr>, m)) 1"

definition LD_A_H :: "'m IOperation" where
  "LD_A_H = createOp (\<lambda>M r m. (r\<lparr>a := h r\<rparr>, m)) 1"

definition LD_A_L :: "'m IOperation" where
  "LD_A_L = createOp (\<lambda>M r m. (r\<lparr>a := l r\<rparr>, m)) 1"

definition LD_A_BC :: "'m IOperation" where
  "LD_A_BC = createOp (\<lambda>M r m.
     (r\<lparr>a := rb M m (js_shl (b r) (8 + c r))\<rparr>, m)) 2"

definition LD_A_DE :: "'m IOperation" where
  "LD_A_DE = createOp (\<lambda>M r m.
     (r\<lparr>a := rb M m (js_shl (d r) (8 + e r))\<rparr>, m)) 2"

definition LD_A_HL :: "'m IOperation" where
  "LD_A_HL = createOp (\<lambda>M r m.
     (r\<lparr>a := rb M m (js_shl (h r) (8 + l r))\<rparr>, m)) 2"

definition LD_A_nn :: "'m IOperation" where
  "LD_A_nn = createOp (\<lambda>M r m.
     let r = r\<lparr>a := rb M m (rw M m (pc r))\<rparr>;
         r = r\<lparr>pc := pc r + 2\<rparr>
     in (r, m)) 4"

definition LD_A_n :: "'m IOperation" where
  "LD_A_n = createOp (\<lambda>M r m.
     let p = pc r;
         r = r\<lparr>pc := p + 1\<rparr>;
         r = r\<lparr>a := rb M m p\<rparr>
     in (r, m)) 2"

definition LD_B_A :: "'m IOperation" where
  "LD_B_A = createOp (\<lambda>M r m. (r\<lparr>b := a r\<rparr>, m)) 1"

definition LD_B_B :: "'m IOperation" where
  "LD_B_B = createOp (\<lambda>M r m. (r\<lparr>b := b r\<rparr>, m)) 1"

definition LD_B_C :: "'m IOperation" where
  "LD_B_C = createOp (\<lambda>M r m. (r\<lparr>b := c r\<rparr>, m)) 1"

definition LD_B_D :: "'m IOperation" where
  "LD_B_D = createOp (\<lambda>M r m. (r\<lparr>b := d r\<rparr>, m)) 1"

definition LD_B_E :: "'m IOperation" where
  "LD_B_E = createOp (\<lambda>M r m. (r\<lparr>b := e r\<rparr>, m)) 1"

definition LD_B_H :: "'m IOperation" where
  "LD_B_H = createOp (\<lambda>M r m. (r\<lparr>b := h r\<rparr>, m)) 1"

definition LD_B_L :: "'m IOperation" where
  "LD_B_L = createOp (\<lambda>M r m. (r\<lparr>b := l r\<rparr>, m)) 1"

definition LD_B_BC :: "'m IOperation" where
  "LD_B_BC = createOp (\<lambda>M r m.
     (r\<lparr>b := rb M m (js_shl (b r) (8 + c r))\<rparr>, m)) 2"

definition LD_B_DE :: "'m IOperation" where
  "LD_B_DE = createOp (\<lambda>M r m.
     (r\<lparr>b := rb M m (js_shl (d r) (8 + e r))\<rparr>, m)) 2"

definition LD_B_HL :: "'m IOperation" where
  "LD_B_HL = createOp (\<lambda>M r m.
     (r\<lparr>b := rb M m (js_shl (h r) (8 + l r))\<rparr>, m)) 2"

definition LD_B_nn :: "'m IOperation" where
  "LD_B_nn = createOp (\<lambda>M r m.
     let r = r\<lparr>b := rb M m (rw M m (pc r))\<rparr>;
         r = r\<lparr>pc := pc r + 2\<rparr>
     in (r, m)) 4"

definition LD_B_n :: "'m IOperation" where
  "LD_B_n = createOp (\<lambda>M r m.
     let p = pc r;
         r = r\<lparr>pc := p + 1\<rparr>;
         r = r\<lparr>b := rb M m p\<rparr>
     in (r, m)) 2"

definition LD_C_A :: "'m IOperation" where
  "LD_C_A = createOp (\<lambda>M r m. (r\<lparr>c := a r\<rparr>, m)) 1"

definition LD_C_B :: "'m IOperation" where
  "LD_C_B = createOp (\<lambda>M r m. (r\<lparr>c := b r\<rparr>, m)) 1"

definition LD_C_C :: "'m IOperation" where
  "LD_C_C = createOp (\<lambda>M r m. (r\<lparr>c := c r\<rparr>, m)) 1"

definition LD_C_D :: "'m IOperation" where
  "LD_C_D = createOp (\<lambda>M r m. (r\<lparr>c := d r\<rparr>, m)) 1"

definition LD_C_E :: "'m IOperation" where
  "LD_C_E = createOp (\<lambda>M r m. (r\<lparr>c := e r\<rparr>, m)) 1"

definition LD_C_H :: "'m IOperation" where
  "LD_C_H = createOp (\<lambda>M r m. (r\<lparr>c := h r\<rparr>, m)) 1"

definition LD_C_L :: "'m IOperation" where
  "LD_C_L = createOp (\<lambda>M r m. (r\<lparr>c := l r\<rparr>, m)) 1"

definition LD_C_BC :: "'m IOperation" where
  "LD_C_BC = createOp (\<lambda>M r m.
     (r\<lparr>c := rb M m (js_shl (b r) (8 + c r))\<rparr>, m)) 2"

definition LD_C_DE :: "'m IOperation" where
  "LD_C_DE = createOp (\<lambda>M r m.
     (r\<lparr>c := rb M m (js_shl (d r) (8 + e r))\<rparr>, m)) 2"

definition LD_C_HL :: "'m IOperation" where
  "LD_C_HL = createOp (\<lambda>M r m.
     (r\<lparr>c := rb M m (js_shl (h r) (8 + l r))\<rparr>, m)) 2"

definition LD_C_nn :: "'m IOperation" where
  "LD_C_nn = createOp (\<lambda>M r m.
     let r = r\<lparr>c := rb M m (rw M m (pc r))\<rparr>;
         r = r\<lparr>pc := pc r + 2\<rparr>
     in (r, m)) 4"

definition LD_C_n :: "'m IOperation" where
  "LD_C_n = createOp (\<lambda>M r m.
     let p = pc r;
         r = r\<lparr>pc := p + 1\<rparr>;
         r = r\<lparr>c := rb M m p\<rparr>
     in (r, m)) 2"

definition LD_D_A :: "'m IOperation" where
  "LD_D_A = createOp (\<lambda>M r m. (r\<lparr>d := a r\<rparr>, m)) 1"

definition LD_D_B :: "'m IOperation" where
  "LD_D_B = createOp (\<lambda>M r m. (r\<lparr>d := b r\<rparr>, m)) 1"

definition LD_D_C :: "'m IOperation" where
  "LD_D_C = createOp (\<lambda>M r m. (r\<lparr>d := c r\<rparr>, m)) 1"

definition LD_D_D :: "'m IOperation" where
  "LD_D_D = createOp (\<lambda>M r m. (r\<lparr>d := d r\<rparr>, m)) 1"

definition LD_D_E :: "'m IOperation" where
  "LD_D_E = createOp (\<lambda>M r m. (r\<lparr>d := e r\<rparr>, m)) 1"

definition LD_D_H :: "'m IOperation" where
  "LD_D_H = createOp (\<lambda>M r m. (r\<lparr>d := h r\<rparr>, m)) 1"

definition LD_D_L :: "'m IOperation" where
  "LD_D_L = createOp (\<lambda>M r m. (r\<lparr>d := l r\<rparr>, m)) 1"

definition LD_D_BC :: "'m IOperation" where
  "LD_D_BC = createOp (\<lambda>M r m.
     (r\<lparr>d := rb M m (js_shl (b r) (8 + c r))\<rparr>, m)) 2"

definition LD_D_DE :: "'m IOperation" where
  "LD_D_DE = createOp (\<lambda>M r m.
     (r\<lparr>d := rb M m (js_shl (d r) (8 + e r))\<rparr>, m)) 2"

definition LD_D_HL :: "'m IOperation" where
  "LD_D_HL = createOp (\<lambda>M r m.
     (r\<lparr>d := rb M m (js_shl (h r) (8 + l r))\<rparr>, m)) 2"

definition LD_D_nn :: "'m IOperation" where
  "LD_D_nn = createOp (\<lambda>M r m.
     let r = r\<lparr>d := rb M m (rw M m (pc r))\<rparr>;
         r = r\<lparr>pc := pc r + 2\<rparr>
     in (r, m)) 4"

definition LD_D_n :: "'m IOperation" where
  "LD_D_n = createOp (\<lambda>M r m.
     let p = pc r;
         r = r\<lparr>pc := p + 1\<rparr>;
         r = r\<lparr>d := rb M m p\<rparr>
     in (r, m)) 2"

definition LD_E_A :: "'m IOperation" where
  "LD_E_A = createOp (\<lambda>M r m. (r\<lparr>e := a r\<rparr>, m)) 1"

definition LD_E_B :: "'m IOperation" where
  "LD_E_B = createOp (\<lambda>M r m. (r\<lparr>e := b r\<rparr>, m)) 1"

definition LD_E_C :: "'m IOperation" where
  "LD_E_C = createOp (\<lambda>M r m. (r\<lparr>e := c r\<rparr>, m)) 1"

definition LD_E_D :: "'m IOperation" where
  "LD_E_D = createOp (\<lambda>M r m. (r\<lparr>e := d r\<rparr>, m)) 1"

definition LD_E_E :: "'m IOperation" where
  "LD_E_E = createOp (\<lambda>M r m. (r\<lparr>e := e r\<rparr>, m)) 1"

definition LD_E_H :: "'m IOperation" where
  "LD_E_H = createOp (\<lambda>M r m. (r\<lparr>e := h r\<rparr>, m)) 1"

definition LD_E_L :: "'m IOperation" where
  "LD_E_L = createOp (\<lambda>M r m. (r\<lparr>e := l r\<rparr>, m)) 1"

definition LD_E_BC :: "'m IOperation" where
  "LD_E_BC = createOp (\<lambda>M r m.
     (r\<lparr>e := rb M m (js_shl (b r) (8 + c r))\<rparr>, m)) 2"

definition LD_E_DE :: "'m IOperation" where
  "LD_E_DE = createOp (\<lambda>M r m.
     (r\<lparr>e := rb M m (js_shl (d r) (8 + e r))\<rparr>, m)) 2"

definition LD_E_HL :: "'m IOperation" where
  "LD_E_HL = createOp (\<lambda>M r m.
     (r\<lparr>e := rb M m (js_shl (h r) (8 + l r))\<rparr>, m)) 2"

definition LD_E_nn :: "'m IOperation" where
  "LD_E_nn = createOp (\<lambda>M r m.
     let r = r\<lparr>e := rb M m (rw M m (pc r))\<rparr>;
         r = r\<lparr>pc := pc r + 2\<rparr>
     in (r, m)) 4"

definition LD_E_n :: "'m IOperation" where
  "LD_E_n = createOp (\<lambda>M r m.
     let p = pc r;
         r = r\<lparr>pc := p + 1\<rparr>;
         r = r\<lparr>e := rb M m p\<rparr>
     in (r, m)) 2"

definition LD_H_A :: "'m IOperation" where
  "LD_H_A = createOp (\<lambda>M r m. (r\<lparr>h := a r\<rparr>, m)) 1"

definition LD_H_B :: "'m IOperation" where
  "LD_H_B = createOp (\<lambda>M r m. (r\<lparr>h := b r\<rparr>, m)) 1"

definition LD_H_C :: "'m IOperation" where
  "LD_H_C = createOp (\<lambda>M r m. (r\<lparr>h := c r\<rparr>, m)) 1"

definition LD_H_D :: "'m IOperation" where
  "LD_H_D = createOp (\<lambda>M r m. (r\<lparr>h := d r\<rparr>, m)) 1"

definition LD_H_E :: "'m IOperation" where
  "LD_H_E = createOp (\<lambda>M r m. (r\<lparr>h := e r\<rparr>, m)) 1"

definition LD_H_H :: "'m IOperation" where
  "LD_H_H = createOp (\<lambda>M r m. (r\<lparr>h := h r\<rparr>, m)) 1"

definition LD_H_L :: "'m IOperation" where
  "LD_H_L = createOp (\<lambda>M r m. (r\<lparr>h := l r\<rparr>, m)) 1"

definition LD_H_BC :: "'m IOperation" where
  "LD_H_BC = createOp (\<lambda>M r m.
     (r\<lparr>h := rb M m (js_shl (b r) (8 + c r))\<rparr>, m)) 2"

definition LD_H_DE :: "'m IOperation" where
  "LD_H_DE = createOp (\<lambda>M r m.
     (r\<lparr>h := rb M m (js_shl (d r) (8 + e r))\<rparr>, m)) 2"

definition LD_H_HL :: "'m IOperation" where
  "LD_H_HL = createOp (\<lambda>M r m.
     (r\<lparr>h := rb M m (js_shl (h r) (8 + l r))\<rparr>, m)) 2"

definition LD_H_nn :: "'m IOperation" where
  "LD_H_nn = createOp (\<lambda>M r m.
     let r = r\<lparr>h := rb M m (rw M m (pc r))\<rparr>;
         r = r\<lparr>pc := pc r + 2\<rparr>
     in (r, m)) 4"

definition LD_H_n :: "'m IOperation" where
  "LD_H_n = createOp (\<lambda>M r m.
     let p = pc r;
         r = r\<lparr>pc := p + 1\<rparr>;
         r = r\<lparr>h := rb M m p\<rparr>
     in (r, m)) 2"

definition LD_L_A :: "'m IOperation" where
  "LD_L_A = createOp (\<lambda>M r m. (r\<lparr>l := a r\<rparr>, m)) 1"

definition LD_L_B :: "'m IOperation" where
  "LD_L_B = createOp (\<lambda>M r m. (r\<lparr>l := b r\<rparr>, m)) 1"

definition LD_L_C :: "'m IOperation" where
  "LD_L_C = createOp (\<lambda>M r m. (r\<lparr>l := c r\<rparr>, m)) 1"

definition LD_L_D :: "'m IOperation" where
  "LD_L_D = createOp (\<lambda>M r m. (r\<lparr>l := d r\<rparr>, m)) 1"

definition LD_L_E :: "'m IOperation" where
  "LD_L_E = createOp (\<lambda>M r m. (r\<lparr>l := e r\<rparr>, m)) 1"

definition LD_L_H :: "'m IOperation" where
  "LD_L_H = createOp (\<lambda>M r m. (r\<lparr>l := h r\<rparr>, m)) 1"

definition LD_L_L :: "'m IOperation" where
  "LD_L_L = createOp (\<lambda>M r m. (r\<lparr>l := l r\<rparr>, m)) 1"

definition LD_L_BC :: "'m IOperation" where
  "LD_L_BC = createOp (\<lambda>M r m.
     (r\<lparr>l := rb M m (js_shl (b r) (8 + c r))\<rparr>, m)) 2"

definition LD_L_DE :: "'m IOperation" where
  "LD_L_DE = createOp (\<lambda>M r m.
     (r\<lparr>l := rb M m (js_shl (d r) (8 + e r))\<rparr>, m)) 2"

definition LD_L_HL :: "'m IOperation" where
  "LD_L_HL = createOp (\<lambda>M r m.
     (r\<lparr>l := rb M m (js_shl (h r) (8 + l r))\<rparr>, m)) 2"

definition LD_L_nn :: "'m IOperation" where
  "LD_L_nn = createOp (\<lambda>M r m.
     let r = r\<lparr>l := rb M m (rw M m (pc r))\<rparr>;
         r = r\<lparr>pc := pc r + 2\<rparr>
     in (r, m)) 4"

definition LD_L_n :: "'m IOperation" where
  "LD_L_n = createOp (\<lambda>M r m.
     let p = pc r;
         r = r\<lparr>pc := p + 1\<rparr>;
         r = r\<lparr>l := rb M m p\<rparr>
     in (r, m)) 2"

definition LD_HL_B :: "'m IOperation" where
  "LD_HL_B = createOp (\<lambda>M r m. (r, wb M m (js_shl (h r) (8 + l r)) (b r))) 2"

definition LD_HL_C :: "'m IOperation" where
  "LD_HL_C = createOp (\<lambda>M r m. (r, wb M m (js_shl (h r) (8 + l r)) (c r))) 2"

definition LD_HL_D :: "'m IOperation" where
  "LD_HL_D = createOp (\<lambda>M r m. (r, wb M m (js_shl (h r) (8 + l r)) (d r))) 2"

definition LD_HL_E :: "'m IOperation" where
  "LD_HL_E = createOp (\<lambda>M r m. (r, wb M m (js_shl (h r) (8 + l r)) (e r))) 2"

definition LD_HL_H :: "'m IOperation" where
  "LD_HL_H = createOp (\<lambda>M r m. (r, wb M m (js_shl (h r) (8 + l r)) (h r))) 2"

definition LD_HL_L :: "'m IOperation" where
  "LD_HL_L = createOp (\<lambda>M r m. (r, wb M m (js_shl (h r) (8 + l r)) (l r))) 2"

definition LD_HL_n :: "'m IOperation" where
  "LD_HL_n = createOp (\<lambda>M r m.
     let p = pc r;
         r = r\<lparr>pc := p + 1\<rparr>;
         m = wb M m (js_shl (h r) (8 + l r)) (rb M m p)
     in (r, m)) 3"

definition LD_BC_A :: "'m IOperation" where
  "LD_BC_A = createOp (\<lambda>M r m. (r, wb M m (js_shl (b r) (8 + c r)) (a r))) 2"

definition LD_DE_A :: "'m IOperation" where
  "LD_DE_A = createOp (\<lambda>M r m. (r, wb M m (js_shl (d r) (8 + e r)) (a r))) 2"

definition LD_HL_A :: "'m IOperation" where
  "LD_HL_A = createOp (\<lambda>M r m. (r, wb M m (js_shl (h r) (8 + l r)) (a r))) 2"

definition LD_nn_A :: "'m IOperation" where
  "LD_nn_A = createOp (\<lambda>M r m.
     let m = wb M m (rw M m (pc r)) (a r);
         r = r\<lparr>pc := pc r + 2\<rparr>
     in (r, m)) 4"

definition LD_A_FFC :: "'m IOperation" where
  "LD_A_FFC = createOp (\<lambda>M r m. (r\<lparr>a := rb M m (65280 + c r)\<rparr>, m)) 2"

definition LD_FFC_A :: "'m IOperation" where
  "LD_FFC_A = createOp (\<lambda>M r m. (r, wb M m (65280 + c r) (a r))) 2"

definition LD_A_HLD :: "'m IOperation" where
  "LD_A_HLD = createOp (\<lambda>M r m.
     let (c0, r, m) = LD_A_HL M r m;
         r = r\<lparr>l := js_and (l r - 1) 255\<rparr>;
         r = (if l r = 255 then r\<lparr>h := js_and (h r - 1) 255\<rparr> else r)
     in (r, m)) 2"

definition LD_HLD_A :: "'m IOperation" where
  "LD_HLD_A = createOp (\<lambda>M r m.
     let (c0, r, m) = LD_HL_A M r m;
         r = r\<lparr>l := js_and (l r - 1) 255\<rparr>;
         r = (if l r = 255 then r\<lparr>h := js_and (h r - 1) 255\<rparr> else r)
     in (r, m)) 2"

definition LD_A_HLI :: "'m IOperation" where
  "LD_A_HLI = createOp (\<lambda>M r m.
     let (c0, r, m) = LD_A_HL M r m;
         r = r\<lparr>l := js_and (l r + 1) 255\<rparr>;
         r = (if l r = 0 then r\<lparr>h := js_and (h r + 1) 255\<rparr> else r)
     in (r, m)) 2"

definition LD_HLI_A :: "'m IOperation" where
  "LD_HLI_A = createOp (\<lambda>M r m.
     let (c0, r, m) = LD_HL_A M r m;
         r = r\<lparr>l := js_and (l r + 1) 255\<rparr>;
         r = (if l r = 0 then r\<lparr>h := js_and (h r + 1) 255\<rparr> else r)
     in (r, m)) 2"

definition LD_FFn_A :: "'m IOperation" where
  "LD_FFn_A = createOp (\<lambda>M r m.
     let p = pc r;
         r = r\<lparr>pc := p + 1\<rparr>;
         m = wb M m (65280 + rb M m p) (a r)
     in (r, m)) 3"

definition LD_A_FFn :: "'m IOperation" where
  "LD_A_FFn = createOp (\<lambda>M r m.
     let p = pc r;
         r = r\<lparr>pc := p + 1\<rparr>;
         r = r\<lparr>a := rb M m (65280 + rb M m p)\<rparr>
     in (r, m)) 3"

definition LD_BC_nn :: "'m IOperation" where
  "LD_BC_nn = createOp (\<lambda>M r m.
     let p = pc r;
         r = r\<lparr>pc := p + 1\<rparr>;
         r = r\<lparr>c := rb M m p\<rparr>;
         p = pc r;
         r = r\<lparr>pc := p + 1\<rparr>;
         r = r\<lparr>b := rb M m p\<rparr>
     in (r, m)) 3"

definition LD_DE_nn :: "'m IOperation" where
  "LD_DE_nn = createOp (\<lambda>M r m.
     let p = pc r;
         r = r\<lparr>pc := p + 1\<rparr>;
         r = r\<lparr>e := rb M m p\<rparr>;
         p = pc r;
         r = r\<lparr>pc := p + 1\<rparr>;
         r = r\<lparr>d := rb M m p\<rparr>
     in (r, m)) 3"

definition LD_HL_nn :: "'m IOperation" where
  "LD_HL_nn = createOp (\<lambda>M r m.
     let p = pc r;
         r = r\<lparr>pc := p + 1\<rparr>;
         r = r\<lparr>l := rb M m p\<rparr>;
         p = pc r;
         r = r\<lparr>pc := p + 1\<rparr>;
         r = r\<lparr>h := rb M m p\<rparr>
     in (r, m)) 3"

definition LD_SP_nn :: "'m IOperation" where
  "LD_SP_nn = createOp (\<lambda>M r m.
     let r = r\<lparr>sp := rw M m (pc r)\<rparr>;
         r = r\<lparr>pc := pc r + 2\<rparr>
     in (r, m)) 3"

definition LD_SP_HL :: "'m IOperation" where
  "LD_SP_HL = createOp (\<lambda>M r m.
     (r\<lparr>sp := js_or (js_shl (rb M m (h r)) 8) (rb M m (l r))\<rparr>, m)) 2"

definition LD_HL_SPn :: "'m IOperation" where
  "LD_HL_SPn = createOp (\<lambda>M r m.
     let p = pc r;
         r = r\<lparr>pc := p + 1\<rparr>;
         v = toSigned (rb M m p) + sp r;
         r = r\<lparr>h := js_and (js_shr v 8) 255\<rparr>;
         r = r\<lparr>l := js_and v 255\<rparr>
     in (r, m)) 3"

definition LD_nn_SP :: "'m IOperation" where
  "LD_nn_SP = createOp (\<lambda>M r m.
     let m = ww M m (rw M m (pc r)) (sp r);
         r = r\<lparr>pc := pc r + 2\<rparr>
     in (r, m)) 5"

definition PUSH_AF :: "'m IOperation" where
  "PUSH_AF = createOp (\<lambda>M r m.
     let r = r\<lparr>sp := sp r - 1\<rparr>;
         m = wb M m (sp r) (a r);
         r = r\<lparr>sp := sp r - 1\<rparr>;
         m = wb M m (sp r) (f r)
     in (r, m)) 4"

definition PUSH_BC :: "'m IOperation" where
  "PUSH_BC = createOp (\<lambda>M r m.
     let r = r\<lparr>sp := sp r - 1\<rparr>;
         m = wb M m (sp r) (b r);
         r = r\<lparr>sp := sp r - 1\<rparr>;
         m = wb M m (sp r) (c r)
     in (r, m)) 4"

definition PUSH_DE :: "'m IOperation" where
  "PUSH_DE = createOp (\<lambda>M r m.
     let r = r\<lparr>sp := sp r - 1\<rparr>;
         m = wb M m (sp r) (d r);
         r = r\<lparr>sp := sp r - 1\<rparr>;
         m = wb M m (sp r) (e r)
     in (r, m)) 4"

definition PUSH_HL :: "'m IOperation" where
  "PUSH_HL = createOp (\<lambda>M r m.
     let r = r\<lparr>sp := sp r - 1\<rparr>;
         m = wb M m (sp r) (h r);
         r = r\<lparr>sp := sp r - 1\<rparr>;
         m = wb M m (sp r) (l r)
     in (r, m)) 4"

definition POP_AF :: "'m IOperation" where
  "POP_AF = createOp (\<lambda>M r m.
     let p = sp r;
         r = r\<lparr>sp := p + 1\<rparr>;
         r = r\<lparr>f := rb M m p\<rparr>;
         p = sp r;
         r = r\<lparr>sp := p + 1\<rparr>;
         r = r\<lparr>a := rb M m p\<rparr>
     in (r, m)) 3"

definition POP_BC :: "'m IOperation" where
  "POP_BC = createOp (\<lambda>M r m.
     let p = sp r;
         r = r\<lparr>sp := p + 1\<rparr>;
         r = r\<lparr>c := rb M m p\<rparr>;
         p = sp r;
         r = r\<lparr>sp := p + 1\<rparr>;
         r = r\<lparr>b := rb M m p\<rparr>
     in (r, m)) 3"

definition POP_DE :: "'m IOperation" where
  "POP_DE = createOp (\<lambda>M r m.
     let p = sp r;
         r = r\<lparr>sp := p + 1\<rparr>;
         r = r\<lparr>e := rb M m p\<rparr>;
         p = sp r;
         r = r\<lparr>sp := p + 1\<rparr>;
         r = r\<lparr>d := rb M m p\<rparr>
     in (r, m)) 3"

definition POP_HL :: "'m IOperation" where
  "POP_HL = createOp (\<lambda>M r m.
     let p = sp r;
         r = r\<lparr>sp := p + 1\<rparr>;
         r = r\<lparr>l := rb M m p\<rparr>;
         p = sp r;
         r = r\<lparr>sp := p + 1\<rparr>;
         r = r\<lparr>h := rb M m p\<rparr>
     in (r, m)) 3"

definition ADD_A :: "'m IOperation" where
  "ADD_A = createOp (\<lambda>M r m. (add r (a r), m)) 1"

definition ADD_B :: "'m IOperation" where
  "ADD_B = createOp (\<lambda>M r m. (add r (b r), m)) 1"

definition ADD_C :: "'m IOperation" where
  "ADD_C = createOp (\<lambda>M r m. (add r (c r), m)) 1"

definition ADD_D :: "'m IOperation" where
  "ADD_D = createOp (\<lambda>M r m. (add r (d r), m)) 1"

definition ADD_E :: "'m IOperation" where
  "ADD_E = createOp (\<lambda>M r m. (add r (e r), m)) 1"

definition ADD_H :: "'m IOperation" where
  "ADD_H = createOp (\<lambda>M r m. (add r (h r), m)) 1"

definition ADD_L :: "'m IOperation" where
  "ADD_L = createOp (\<lambda>M r m. (add r (l r), m)) 1"

definition ADD_HLM :: "'m IOperation" where
  "ADD_HLM = createOp (\<lambda>M r m. (add r (rb M m (js_shl (h r) (8 + l r))), m)) 2"

definition ADD_n :: "'m IOperation" where
  "ADD_n = createOp (\<lambda>M r m.
     let p = pc r;
         r = r\<lparr>pc := p + 1\<rparr>;
         r = add r (rb M m p)
     in (r, m)) 2"

definition ADC_A :: "'m IOperation" where
  "ADC_A = createOp (\<lambda>M r m.
     (add r (a r + (if js_and (f r) Flags_C \<noteq> 0 then 1 else 0)), m)) 1"

definition ADC_B :: "'m IOperation" where
  "ADC_B = createOp (\<lambda>M r m.
     (add r (b r + (if js_and (f r) Flags_C \<noteq> 0 then 1 else 0)), m)) 1"

definition ADC_C :: "'m IOperation" where
  "ADC_C = createOp (\<lambda>M r m.
     (add r (c r + (if js_and (f r) Flags_C \<noteq> 0 then 1 else 0)), m)) 1"

definition ADC_D :: "'m IOperation" where
  "ADC_D = createOp (\<lambda>M r m.
     (add r (d r + (if js_and (f r) Flags_C \<noteq> 0 then 1 else 0)), m)) 1"

definition ADC_E :: "'m IOperation" where
  "ADC_E = createOp (\<lambda>M r m.
     (add r (e r + (if js_and (f r) Flags_C \<noteq> 0 then 1 else 0)), m)) 1"

definition ADC_H :: "'m IOperation" where
  "ADC_H = createOp (\<lambda>M r m.
     (add r (h r + (if js_and (f r) Flags_C \<noteq> 0 then 1 else 0)), m)) 1"

definition ADC_L :: "'m IOperation" where
  "ADC_L = createOp (\<lambda>M r m.
     (add r (l r + (if js_and (f r) Flags_C \<noteq> 0 then 1 else 0)), m)) 1"

definition ADC_HLM :: "'m IOperation" where
  "ADC_HLM = createOp (\<lambda>M r m.
     (add r (rb M m (js_shl (h r) (8 + l r)) + (if js_and (f r) Flags_C \<noteq> 0 then 1 else 0)), m)) 2"

definition ADC_n :: "'m IOperation" where
  "ADC_n = createOp (\<lambda>M r m.
     let p = pc r;
         r = r\<lparr>pc := p + 1\<rparr>;
         r = add r (rb M m p + (if js_and (f r) Flags_C \<noteq> 0 then 1 else 0))
     in (r, m)) 2"

definition SUB_A :: "'m IOperation" where
  "SUB_A = createOp (\<lambda>M r m. (sub r (a r), m)) 1"

definition SUB_B :: "'m IOperation" where
  "SUB_B = createOp (\<lambda>M r m. (sub r (b r), m)) 1"

definition SUB_C :: "'m IOperation" where
  "SUB_C = createOp (\<lambda>M r m. (sub r (c r), m)) 1"

definition SUB_D :: "'m IOperation" where
  "SUB_D = createOp (\<lambda>M r m. (sub r (d r), m)) 1"

definition SUB_E :: "'m IOperation" where
  "SUB_E = createOp (\<lambda>M r m. (sub r (e r), m)) 1"

definition SUB_H :: "'m IOperation" where
  "SUB_H = createOp (\<lambda>M r m. (sub r (h r), m)) 1"

definition SUB_L :: "'m IOperation" where
  "SUB_L = createOp (\<lambda>M r m. (sub r (l r), m)) 1"

definition SUB_HLM :: "'m IOperation" where
  "SUB_HLM = createOp (\<lambda>M r m. (sub r (rb M m (js_shl (h r) (8 + l r))), m)) 2"

definition SUB_n :: "'m IOperation" where
  "SUB_n = createOp (\<lambda>M r m.
     let p = pc r;
         r = r\<lparr>pc := p + 1\<rparr>;
         r = sub r (rb M m p)
     in (r, m)) 2"

definition SBC_A :: "'m IOperation" where
  "SBC_A = createOp (\<lambda>M r m.
     (sub r (a r + (if js_and (f r) Flags_C \<noteq> 0 then 1 else 0)), m)) 1"

definition SBC_B :: "'m IOperation" where
  "SBC_B = createOp (\<lambda>M r m.
     (sub r (b r + (if js_and (f r) Flags_C \<noteq> 0 then 1 else 0)), m)) 1"

definition SBC_C :: "'m IOperation" where
  "SBC_C = createOp (\<lambda>M r m.
     (sub r (c r + (if js_and (f r) Flags_C \<noteq> 0 then 1 else 0)), m)) 1"

definition SBC_D :: "'m IOperation" where
  "SBC_D = createOp (\<lambda>M r m.
     (sub r (d r + (if js_and (f r) Flags_C \<noteq> 0 then 1 else 0)), m)) 1"

definition SBC_E :: "'m IOperation" where
  "SBC_E = createOp (\<lambda>M r m.
     (sub r (e r + (if js_and (f r) Flags_C \<noteq> 0 then 1 else 0)), m)) 1"

definition SBC_H :: "'m IOperation" where
  "SBC_H = createOp (\<lambda>M r m.
     (sub r (h r + (if js_and (f r) Flags_C \<noteq> 0 then 1 else 0)), m)) 1"

definition SBC_L :: "'m IOperation" where
  "SBC_L = createOp (\<lambda>M r m.
     (sub r (l r + (if js_and (f r) Flags_C \<noteq> 0 then 1 else 0)), m)) 1"

definition SBC_HLM :: "'m IOperation" where
  "SBC_HLM = createOp (\<lambda>M r m.
     (sub r (rb M m (js_shl (h r) (8 + l r)) + (if js_and (f r) Flags_C \<noteq> 0 then 1 else 0)), m)) 2"

definition AND_A :: "'m IOperation" where
  "AND_A = createOp (\<lambda>M r m. (and_fn r (a r), m)) 1"

definition AND_B :: "'m IOperation" where
  "AND_B = createOp (\<lambda>M r m. (and_fn r (b r), m)) 1"

definition AND_C :: "'m IOperation" where
  "AND_C = createOp (\<lambda>M r m. (and_fn r (c r), m)) 1"

definition AND_D :: "'m IOperation" where
  "AND_D = createOp (\<lambda>M r m. (and_fn r (d r), m)) 1"

definition AND_E :: "'m IOperation" where
  "AND_E = createOp (\<lambda>M r m. (and_fn r (e r), m)) 1"

definition AND_H :: "'m IOperation" where
  "AND_H = createOp (\<lambda>M r m. (and_fn r (h r), m)) 1"

definition AND_L :: "'m IOperation" where
  "AND_L = createOp (\<lambda>M r m. (and_fn r (l r), m)) 1"

definition AND_HLM :: "'m IOperation" where
  "AND_HLM = createOp (\<lambda>M r m. (and_fn r (rb M m (js_shl (h r) (8 + l r))), m)) 2"

definition AND_n :: "'m IOperation" where
  "AND_n = createOp (\<lambda>M r m.
     let p = pc r;
         r = r\<lparr>pc := p + 1\<rparr>;
         r = and_fn r (rb M m p)
     in (r, m)) 2"

definition OR_A :: "'m IOperation" where
  "OR_A = createOp (\<lambda>M r m. (or_fn r (a r), m)) 1"

definition OR_B :: "'m IOperation" where
  "OR_B = createOp (\<lambda>M r m. (or_fn r (b r), m)) 1"

definition OR_C :: "'m IOperation" where
  "OR_C = createOp (\<lambda>M r m. (or_fn r (c r), m)) 1"

definition OR_D :: "'m IOperation" where
  "OR_D = createOp (\<lambda>M r m. (or_fn r (d r), m)) 1"

definition OR_E :: "'m IOperation" where
  "OR_E = createOp (\<lambda>M r m. (or_fn r (e r), m)) 1"

definition OR_H :: "'m IOperation" where
  "OR_H = createOp (\<lambda>M r m. (or_fn r (h r), m)) 1"

definition OR_L :: "'m IOperation" where
  "OR_L = createOp (\<lambda>M r m. (or_fn r (l r), m)) 1"

definition OR_HLM :: "'m IOperation" where
  "OR_HLM = createOp (\<lambda>M r m. (or_fn r (rb M m (js_shl (h r) (8 + l r))), m)) 2"

definition OR_n :: "'m IOperation" where
  "OR_n = createOp (\<lambda>M r m.
     let p = pc r;
         r = r\<lparr>pc := p + 1\<rparr>;
         r = or_fn r (rb M m p)
     in (r, m)) 2"

definition XOR_A :: "'m IOperation" where
  "XOR_A = createOp (\<lambda>M r m. (xor_fn r (a r), m)) 1"

definition XOR_B :: "'m IOperation" where
  "XOR_B = createOp (\<lambda>M r m. (xor_fn r (b r), m)) 1"

definition XOR_C :: "'m IOperation" where
  "XOR_C = createOp (\<lambda>M r m. (xor_fn r (c r), m)) 1"

definition XOR_D :: "'m IOperation" where
  "XOR_D = createOp (\<lambda>M r m. (xor_fn r (d r), m)) 1"

definition XOR_E :: "'m IOperation" where
  "XOR_E = createOp (\<lambda>M r m. (xor_fn r (e r), m)) 1"

definition XOR_H :: "'m IOperation" where
  "XOR_H = createOp (\<lambda>M r m. (xor_fn r (h r), m)) 1"

definition XOR_L :: "'m IOperation" where
  "XOR_L = createOp (\<lambda>M r m. (xor_fn r (l r), m)) 1"

definition XOR_HLM :: "'m IOperation" where
  "XOR_HLM = createOp (\<lambda>M r m. (xor_fn r (rb M m (js_shl (h r) (8 + l r))), m)) 2"

definition XOR_n :: "'m IOperation" where
  "XOR_n = createOp (\<lambda>M r m.
     let p = pc r;
         r = r\<lparr>pc := p + 1\<rparr>;
         r = xor_fn r (rb M m p)
     in (r, m)) 2"

definition CP_A :: "'m IOperation" where
  "CP_A = createOp (\<lambda>M r m. (cp r (a r), m)) 1"

definition CP_B :: "'m IOperation" where
  "CP_B = createOp (\<lambda>M r m. (cp r (b r), m)) 1"

definition CP_C :: "'m IOperation" where
  "CP_C = createOp (\<lambda>M r m. (cp r (c r), m)) 1"

definition CP_D :: "'m IOperation" where
  "CP_D = createOp (\<lambda>M r m. (cp r (d r), m)) 1"

definition CP_E :: "'m IOperation" where
  "CP_E = createOp (\<lambda>M r m. (cp r (e r), m)) 1"

definition CP_H :: "'m IOperation" where
  "CP_H = createOp (\<lambda>M r m. (cp r (h r), m)) 1"

definition CP_L :: "'m IOperation" where
  "CP_L = createOp (\<lambda>M r m. (cp r (l r), m)) 1"

definition CP_HLM :: "'m IOperation" where
  "CP_HLM = createOp (\<lambda>M r m. (cp r (rb M m (js_shl (h r) (8 + l r))), m)) 2"

definition CP_n :: "'m IOperation" where
  "CP_n = createOp (\<lambda>M r m.
     let p = pc r;
         r = r\<lparr>pc := p + 1\<rparr>;
         r = cp r (rb M m p)
     in (r, m)) 2"

definition INC_A :: "'m IOperation" where
  "INC_A = createOp (\<lambda>M r m. (inc r Key_a 255, m)) 1"

definition INC_B :: "'m IOperation" where
  "INC_B = createOp (\<lambda>M r m. (inc r Key_b 255, m)) 1"

definition INC_C :: "'m IOperation" where
  "INC_C = createOp (\<lambda>M r m. (inc r Key_c 255, m)) 1"

definition INC_D :: "'m IOperation" where
  "INC_D = createOp (\<lambda>M r m. (inc r Key_d 255, m)) 1"

definition INC_E :: "'m IOperation" where
  "INC_E = createOp (\<lambda>M r m. (inc r Key_e 255, m)) 1"

definition INC_H :: "'m IOperation" where
  "INC_H = createOp (\<lambda>M r m. (inc r Key_h 255, m)) 1"

definition INC_L :: "'m IOperation" where
  "INC_L = createOp (\<lambda>M r m. (inc r Key_l 255, m)) 1"

definition INC_HLM :: "'m IOperation" where
  "INC_HLM = createOp (\<lambda>M r m.
     let i = js_shl (h r) (8 + l r);
         v = js_and (rb M m i + 1) 255;
         m = wb M m i v;
         r = resetFlags r v
     in (r, m)) 3"

definition DEC_A :: "'m IOperation" where
  "DEC_A = createOp (\<lambda>M r m. (dec r Key_a 255, m)) 1"

definition DEC_B :: "'m IOperation" where
  "DEC_B = createOp (\<lambda>M r m. (dec r Key_b 255, m)) 1"

definition DEC_C :: "'m IOperation" where
  "DEC_C = createOp (\<lambda>M r m. (dec r Key_c 255, m)) 1"

definition DEC_D :: "'m IOperation" where
  "DEC_D = createOp (\<lambda>M r m. (dec r Key_d 255, m)) 1"

definition DEC_E :: "'m IOperation" where
  "DEC_E = createOp (\<lambda>M r m. (dec r Key_e 255, m)) 1"

definition DEC_H :: "'m IOperation" where
  "DEC_H = createOp (\<lambda>M r m. (dec r Key_h 255, m)) 1"

definition DEC_L :: "'m IOperation" where
  "DEC_L = createOp (\<lambda>M r m. (dec r Key_l 255, m)) 1"

definition DEC_HLM :: "'m IOperation" where
  "DEC_HLM = createOp (\<lambda>M r m.
     let i = js_shl (h r) (8 + l r);
         v = js_and (rb M m i - 1) 255;
         m = wb M m i v;
         r = resetFlags r v
     in (r, m)) 3"

definition ADD_HL_BC :: "'m IOperation" where
  "ADD_HL_BC = createOp (\<lambda>M r m. (addHl r (js_shl (b r) (8 + c r)), m)) 2"

definition ADD_HL_DE :: "'m IOperation" where
  "ADD_HL_DE = createOp (\<lambda>M r m. (addHl r (js_shl (d r) (8 + e r)), m)) 2"

definition ADD_HL_HL :: "'m IOperation" where
  "ADD_HL_HL = createOp (\<lambda>M r m. (addHl r (js_shl (h r) (8 + l r)), m)) 2"

definition ADD_HL_SP :: "'m IOperation" where
  "ADD_HL_SP = createOp (\<lambda>M r m. (addHl r (sp r), m)) 2"

definition ADD_SP_n :: "'m IOperation" where
  "ADD_SP_n = createOp (\<lambda>M r m.
     let p = pc r;
         r = r\<lparr>pc := p + 1\<rparr>;
         r = r\<lparr>sp := sp r + toSigned (rb M m p)\<rparr>;
         r = r\<lparr>f := 0\<rparr>
     in (r, m)) 4"

definition INC_BC :: "'m IOperation" where
  "INC_BC = createOp (\<lambda>M r m. (inc2 r Key_b Key_c, m)) 2"

definition INC_DE :: "'m IOperation" where
  "INC_DE = createOp (\<lambda>M r m. (inc2 r Key_d Key_e, m)) 2"

definition INC_HL :: "'m IOperation" where
  "INC_HL = createOp (\<lambda>M r m. (inc2 r Key_h Key_l, m)) 2"

definition INC_SP :: "'m IOperation" where
  "INC_SP = createOp (\<lambda>M r m. (inc r Key_sp 65535, m)) 2"

definition DEC_BC :: "'m IOperation" where
  "DEC_BC = createOp (\<lambda>M r m. (dec2 r Key_b Key_c, m)) 2"

definition DEC_DE :: "'m IOperation" where
  "DEC_DE = createOp (\<lambda>M r m. (dec2 r Key_d Key_e, m)) 2"

definition DEC_HL :: "'m IOperation" where
  "DEC_HL = createOp (\<lambda>M r m. (dec2 r Key_h Key_l, m)) 2"

definition DEC_SP :: "'m IOperation" where
  "DEC_SP = createOp (\<lambda>M r m. (dec r Key_sp 65535, m)) 2"

definition SWAP_A :: "'m IOperation" where
  "SWAP_A = createOp (\<lambda>M r m. (swap r Key_a, m)) 2"

definition SWAP_B :: "'m IOperation" where
  "SWAP_B = createOp (\<lambda>M r m. (swap r Key_b, m)) 2"

definition SWAP_C :: "'m IOperation" where
  "SWAP_C = createOp (\<lambda>M r m. (swap r Key_c, m)) 2"

definition SWAP_D :: "'m IOperation" where
  "SWAP_D = createOp (\<lambda>M r m. (swap r Key_d, m)) 2"

definition SWAP_E :: "'m IOperation" where
  "SWAP_E = createOp (\<lambda>M r m. (swap r Key_e, m)) 2"

definition SWAP_H :: "'m IOperation" where
  "SWAP_H = createOp (\<lambda>M r m. (swap r Key_h, m)) 2"

definition SWAP_L :: "'m IOperation" where
  "SWAP_L = createOp (\<lambda>M r m. (swap r Key_l, m)) 2"

definition SWAP_HLM :: "'m IOperation" where
  "SWAP_HLM = createOp (\<lambda>M r m.
     let i = js_shl (h r) (8 + l r);
         hlm = rb M m i;
         v = js_and (js_or (js_shr hlm 4) (js_shl hlm 4)) 255;
         m = wb M m i v;
         r = resetFlags r v
     in (r, m)) 4"

definition NOP :: "'m IOperation" where
  "NOP = createOp (\<lambda>M r m. (r, m)) 1"

section \<open>cpu.ts: the opcode tables\<close>

definition oMap_table :: "'m IOperation option list" where
  "oMap_table = [
     Some NOP, Some LD_BC_nn, Some LD_BC_A, Some INC_BC,
     Some INC_B, Some DEC_B, Some LD_B_n, None,
     Some LD_nn_SP, Some ADD_HL_BC, Some LD_A_BC, Some DEC_BC,
     Some INC_C, Some DEC_C, Some LD_C_n, None,
     None, Some LD_DE_nn, Some LD_DE_A, Some INC_DE,
     Some INC_D, Some DEC_D, Some LD_D_n, None,
     None, Some ADD_HL_DE, Some LD_A_DE, Some DEC_DE,
     Some INC_E, Some DEC_E, Some LD_E_n, None,
     None, Some LD_HL_nn, Some LD_HLI_A, Some INC_HLM,
     Some INC_H, Some DEC_H, Some LD_H_n, None,
     None, Some ADD_HL_HL, Some LD_A_HLI, Some DEC_HL,
     Some INC_L, Some DEC_L, Some LD_L_n, None,
     None, Some LD_SP_nn, Some LD_HLD_A, Some INC_SP,
     Some INC_HL, Some DEC_HLM, Some LD_HL_n, None,
     None, Some ADD_HL_SP, Some LD_A_HLD, Some DEC_SP,
     Some INC_A, Some DEC_A, Some LD_A_n, None,
     Some LD_B_B, Some LD_B_C, Some LD_B_D, Some LD_B_E,
     Some LD_B_H, Some LD_B_L, Some LD_B_HL, Some LD_B_A,
     Some LD_C_B, Some LD_C_C, Some LD_C_D, Some LD_C_E,
     Some LD_C_H, Some LD_C_L, Some LD_C_HL, Some LD_C_A,
     Some LD_D_B, Some LD_D_C, Some LD_D_D, Some LD_D_E,
     Some LD_D_H, Some LD_D_L, Some LD_D_HL, Some LD_D_A,
     Some LD_E_B, Some LD_E_C, Some LD_E_D, Some LD_E_E,
     Some LD_E_H, Some LD_E_L, Some LD_E_HL, Some LD_E_A,
     Some LD_H_B, Some LD_H_C, Some LD_H_D, Some LD_H_E,
     Some LD_H_H, Some LD_H_L, Some LD_H_HL, Some LD_H_A,
     Some LD_L_B, Some LD_L_C, Some LD_L_D, Some LD_L_E,
     Some LD_L_H, Some LD_L_L, Some LD_L_HL, Some LD_L_A,
     Some LD_HL_B, Some LD_HL_C, Some LD_HL_D, Some LD_HL_E,
     Some LD_HL_H, Some LD_HL_L, Some LD_HL_A, None,
     Some LD_A_B, Some LD_A_C, Some LD_A_D, Some LD_A_E,
     Some LD_A_H, Some LD_A_L, Some LD_A_HL, Some LD_A_A,
     Some ADD_B, Some ADD_C, Some ADD_D, Some ADD_E,
     Some ADD_H, Some ADD_L, Some ADD_HLM, Some ADD_A,
     Some ADC_B, Some ADC_C, Some ADC_D, Some ADC_E,
     Some ADC_H, Some ADC_L, Some ADC_HLM, Some ADC_A,
     Some SUB_B, Some SUB_C, Some SUB_D, Some SUB_E,
     Some SUB_H, Some SUB_L, Some SUB_HLM, Some SUB_A,
     Some SBC_B, Some SBC_C, Some SBC_D, Some SBC_E,
     Some SBC_H, Some SBC_L, Some SBC_HLM, Some SBC_A,
     Some AND_B, Some AND_C, Some AND_D, Some AND_E,
     Some AND_H, Some AND_L, Some AND_HLM, Some AND_A,
     Some XOR_B, Some XOR_C, Some XOR_D, Some XOR_E,
     Some XOR_H, Some XOR_L, Some XOR_HLM, Some XOR_A,
     Some OR_B, Some OR_C, Some OR_D, Some OR_E,
     Some OR_H, Some OR_L, Some OR_HLM, Some OR_A,
     Some CP_B, Some CP_C, Some CP_D, Some CP_E,
     Some CP_H, Some CP_L, Some CP_HLM, Some CP_A,
     None, Some POP_BC, None, None,
     None, Some PUSH_BC, Some ADD_n, None,
     None, None, None, None,
     None, None, Some ADC_n, None,
     None, Some POP_DE, None, None,
     None, Some PUSH_DE, Some SUB_n, None,
     None, None, None, None,
     None, None, None, None,
     Some LD_FFn_A, Some POP_HL, Some LD_FFC_A, None,
     None, Some PUSH_HL, Some AND_n, None,
     Some ADD_SP_n, None, Some LD_nn_A, None,
     None, None, Some XOR_n, None,
     Some LD_A_FFn, Some POP_AF, Some LD_A_FFC, None,
     None, Some PUSH_AF, Some OR_n, None,
     Some LD_HL_SPn, Some LD_SP_HL, Some LD_A_nn, None,
     None, None, None, None]"

definition oCbMap_table :: "'m IOperation option list" where
  "oCbMap_table = [
     None, None, None, None,
     None, None, None, None,
     None, None, None, None,
     None, None, None, None,
     None, None, None, None,
     None, None, None, None,
     None, None, None, None,
     None, None, None, None,
     None, None, None, None,
     None, None, None, None,
     None, None, None, None,
     None, None, None, None,
     Some SWAP_B, Some SWAP_C, Some SWAP_D, Some SWAP_E,
     Some SWAP_H, Some SWAP_L, Some SWAP_HLM, Some SWAP_A,
     None, None, None, None,
     None, None, None, None,
     None, None, None, None,
     None, None, None, None,
     None, None, None, None,
     None, None, None, None,
     None, None, None, None,
     None, None, None, None,
     None, None, None, None,
     None, None, None, None,
     None, None, None, None,
     None, None, None, None,
     None, None, None, None,
     None, None, None, None,
     None, None, None, None,
     None, None, None, None,
     None, None, None, None,
     None, None, None, None]"

text \<open>Indexing a JavaScript array outside its bounds gives \<^verbatim>\<open>undefined\<close>.\<close>

definition oMap :: "int \<Rightarrow> 'm IOperation option" where
  "oMap i = (if 0 \<le> i \<and> i < int (length (oMap_table :: 'm IOperation option list))
             then oMap_table ! nat i else None)"

definition oCbMap :: "int \<Rightarrow> 'm IOperation option" where
  "oCbMap i = (if 0 \<le> i \<and> i < int (length (oCbMap_table :: 'm IOperation option list))
               then oCbMap_table ! nat i else None)"

section \<open>cpu.ts: the CPU\<close>

text \<open>
  The class \<^verbatim>\<open>Cpu\<close> holds the cycle counter \<^verbatim>\<open>_c\<close> and the registers \<^verbatim>\<open>_r\<close>. A thrown
  \<^verbatim>\<open>Error\<close> is the left summand of the outcome; the object and the memory keep what was
  written to them before the throw, so \<open>cycle\<close> returns them in both cases.
\<close>

datatype Error = Error string

record Cpu =
  Cpu_c :: int
  Cpu_r :: IRegisterSet

definition Cpu_init :: Cpu where
  "Cpu_init = \<lparr>Cpu_c = 0,
     Cpu_r = \<lparr>a = 0, b = 0, c = 0, d = 0, e = 0, h = 0, l = 0, f = 0, pc = 0, sp = 0\<rparr>\<rparr>"

definition cycle :: "'m IMemory \<Rightarrow> Cpu \<Rightarrow> 'm \<Rightarrow> (Error + unit) \<times> Cpu \<times> 'm" where
  "cycle M cpu m =
     (let opcode = rb M m (pc (Cpu_r cpu));
          cpu = cpu\<lparr>Cpu_r := (Cpu_r cpu)\<lparr>pc := pc (Cpu_r cpu) + 1\<rparr>\<rparr>
      in case oMap opcode of
           Some op \<Rightarrow>
             (let (cycles, r, m) = op M (Cpu_r cpu) m;
                  cpu = cpu\<lparr>Cpu_r := r\<rparr>;
                  cpu = cpu\<lparr>Cpu_c := Cpu_c cpu + cycles\<rparr>
              in (Inr (), cpu, m))
         | None \<Rightarrow>
             (Inl (Error (''opcode 0x'' @ toString16 opcode @ '' not implemented'')), cpu, m))"

section \<open>The class Gpu: mode timing\<close>

text \<open>
  The \<^verbatim>\<open>const enum Modes\<close> has \<open>HBlank = 0\<close>, \<open>VBlank = 1\<close>, \<open>OamRead = 2\<close> and
  \<open>VramRead = 3\<close>; the field \<^verbatim>\<open>_mode\<close> starts at 0. The background buffer is never read
  or written by \<open>step\<close>, and \<^verbatim>\<open>_renderScan\<close> only logs; neither is part of the state here.
\<close>

datatype Modes = HBlank | VBlank | OamRead | VramRead

record Gpu =
  mode :: Modes
  modeclock :: int
  line :: int

definition Gpu_init :: Gpu where
  "Gpu_init = \<lparr>mode = HBlank, modeclock = 0, line = 0\<rparr>"

definition step :: "int \<Rightarrow> Gpu \<Rightarrow> Gpu" where
  "step cycles g =
     (let g = g\<lparr>modeclock := modeclock g + cycles\<rparr>
      in case mode g of
           OamRead \<Rightarrow>
             if modeclock g \<ge> 80 then g\<lparr>modeclock := 0, mode := VramRead\<rparr> else g
         | VramRead \<Rightarrow>
             if modeclock g \<ge> 172 then g\<lparr>modeclock := 0, mode := HBlank\<rparr> else g
         | HBlank \<Rightarrow>
             if modeclock g \<ge> 204 then
               (let g = g\<lparr>modeclock := 0\<rparr>;
                    g = g\<lparr>line := line g + 1\<rparr>
                in if line g = 143 then g\<lparr>mode := VBlank\<rparr> else g\<lparr>mode := OamRead\<rparr>)
             else g
         | VBlank \<Rightarrow>
             if modeclock g \<ge> 456 then
               (let g = g\<lparr>modeclock := 0\<rparr>;
                    g = g\<lparr>line := line g + 1\<rparr>
                in if line g > 153 then g\<lparr>mode := OamRead, line := 0\<rparr> else g)
             else g)"

text \<open>Several calls of \<open>step\<close> in a row, one per element of the list.\<close>

fun steps :: "int list \<Rightarrow> Gpu \<Rightarrow> Gpu" where
  "steps [] g = g"
| "steps (x # xs) g = steps xs (step x g)"

section \<open>Vocabulary of the properties\<close>

text \<open>
  A flat memory implementing \<^verbatim>\<open>IMemory\<close>, for the closed instances below: one cell per
  address, a written value reads back, words are little-endian (low byte at the lower
  address). It stands for any object a caller may pass to the CPU; the theorems themselves
  are stated for an arbitrary implementation \<open>M\<close>.
\<close>

definition Ram :: "(int \<Rightarrow> int) IMemory" where
  "Ram = \<lparr>rb = (\<lambda>m x. m x),
          rw = (\<lambda>m x. m x + 256 * m (x + 1)),
          wb = (\<lambda>m x v. m(x := v)),
          ww = (\<lambda>m x v. (m(x := v mod 256))(x + 1 := v div 256))\<rparr>"

text \<open>The constant that \<open>step\<close> compares the mode clock with, for each mode.\<close>

definition threshold :: "Modes \<Rightarrow> int" where
  "threshold md = (case md of OamRead \<Rightarrow> 80 | VramRead \<Rightarrow> 172 | HBlank \<Rightarrow> 204 | VBlank \<Rightarrow> 456)"

text \<open>Every entry of the table \<^verbatim>\<open>o\<close> whose name starts with \<^verbatim>\<open>LD_\<close>, in the order of the source.\<close>

definition LD_entries :: "'m IOperation list" where
  "LD_entries = [
     LD_A_A, LD_A_B, LD_A_C, LD_A_D, LD_A_E, LD_A_H, LD_A_L, LD_A_BC, LD_A_DE, LD_A_HL, LD_A_nn,
     LD_A_n, LD_B_A, LD_B_B, LD_B_C, LD_B_D, LD_B_E, LD_B_H, LD_B_L, LD_B_BC, LD_B_DE, LD_B_HL,
     LD_B_nn, LD_B_n, LD_C_A, LD_C_B, LD_C_C, LD_C_D, LD_C_E, LD_C_H, LD_C_L, LD_C_BC, LD_C_DE,
     LD_C_HL, LD_C_nn, LD_C_n, LD_D_A, LD_D_B, LD_D_C, LD_D_D, LD_D_E, LD_D_H, LD_D_L, LD_D_BC,
     LD_D_DE, LD_D_HL, LD_D_nn, LD_D_n, LD_E_A, LD_E_B, LD_E_C, LD_E_D, LD_E_E, LD_E_H, LD_E_L,
     LD_E_BC, LD_E_DE, LD_E_HL, LD_E_nn, LD_E_n, LD_H_A, LD_H_B, LD_H_C, LD_H_D, LD_H_E, LD_H_H,
     LD_H_L, LD_H_BC, LD_H_DE, LD_H_HL, LD_H_nn, LD_H_n, LD_L_A, LD_L_B, LD_L_C, LD_L_D, LD_L_E,
     LD_L_H, LD_L_L, LD_L_BC, LD_L_DE, LD_L_HL, LD_L_nn, LD_L_n, LD_HL_B, LD_HL_C, LD_HL_D, LD_HL_E,
     LD_HL_H, LD_HL_L, LD_HL_n, LD_BC_A, LD_DE_A, LD_HL_A, LD_nn_A, LD_A_FFC, LD_FFC_A, LD_A_HLD,
     LD_HLD_A, LD_A_HLI, LD_HLI_A, LD_FFn_A, LD_A_FFn, LD_BC_nn, LD_DE_nn, LD_HL_nn, LD_SP_nn,
     LD_SP_HL, LD_HL_SPn, LD_nn_SP]"

text \<open>A register set for the closed instances.\<close>

definition regs1 :: IRegisterSet where
  "regs1 = \<lparr>a = 18, b = 52, c = 86, d = 120, e = 154, h = 1, l = 255, f = 16, pc = 0, sp = 65534\<rparr>"


text \<open>
  A memory where a written byte reads back: after writing the byte \<open>v\<close> at an address of
  the 16-bit address space, that address reads \<open>v\<close> and every other address reads what it
  read before.
\<close>

definition reads_back :: "'m IMemory \<Rightarrow> bool" where
  "reads_back M = (\<forall>m x v y. 0 \<le> x \<and> x \<le> 65535 \<and> 0 \<le> y \<and> y \<le> 65535 \<and> 0 \<le> v \<and> v \<le> 255
                     \<longrightarrow> rb M (wb M m x v) y = (if y = x then v else rb M m y))"








section \<open>JavaScript arithmetic facts\<close>

lemma toInt32_mod_256: "toInt32 x mod 256 = x mod 256"
proof -
  have d: "(256::int) dvd 4294967296" by simp
  have "toInt32 x mod 256 = ((x + 2147483648) mod 4294967296 mod 256 - 2147483648 mod 256) mod 256"
    unfolding toInt32_def by (simp only: mod_diff_eq)
  also have "\<dots> = ((x + 2147483648) mod 256 - 2147483648 mod 256) mod 256"
    by (simp only: mod_mod_cancel [OF d])
  also have "\<dots> = (x + 2147483648 - 2147483648) mod 256"
    by (simp only: mod_diff_eq)
  finally show ?thesis by simp
qed

lemma js_and_255: "js_and x 255 = x mod 256"
proof -
  have "toInt32 x AND 255 = toInt32 x AND mask 8" by (simp add: mask_eq_exp_minus_1)
  also have "\<dots> = toInt32 x mod 2 ^ 8" by (simp only: take_bit_eq_mask [symmetric] take_bit_eq_mod)
  finally show ?thesis by (simp add: js_and_def toInt32_mod_256) (simp add: toInt32_def)
qed

section \<open>The 8-bit add primitive\<close>

text \<open>
  Claim C1. The claim asks \<open>add\<close> to set H exactly when the low nibbles carry, and
  \<open>add(0xFF, 0x01)\<close> to give 0 with Z, C and H set. The function never sets H, for any
  registers and operand (its comment says it is meant to); at \<open>a = 0xFF\<close> and operand
  \<open>0x01\<close> it yields \<open>a = 0\<close> and \<open>f = 0x90\<close>, that is Z and C only.
\<close>

theorem add_never_sets_H:
  "js_and (f (add r v)) Flags_H = 0 \<and>
   add (r\<lparr>a := 255\<rparr>) 1 = r\<lparr>a := 0, f := 144\<rparr>"
  by (simp add: add_def resetFlags_def Let_def js_and_def js_or_def toInt32_def
      Flags_Z_def Flags_C_def Flags_H_def)

section \<open>The GPU timing\<close>

text \<open>
  Claim C2. The claim has HBlank lead to VBlank exactly when the incremented line is 144,
  so that VBlank implies \<open>144 \<le> line\<close>. The code compares with 143: from HBlank at line
  142 one crossing gives VBlank at line 143, and this state is reached from
  \<open>{OamRead, 0, 0}\<close> by 143 scanlines of 80, 172 and 204 cycles, and from the constructor's
  state by 204 cycles and 142 such scanlines.
\<close>

theorem step_enters_VBlank_at_143:
  "step 204 \<lparr>mode = HBlank, modeclock = 0, line = 142\<rparr> = \<lparr>mode = VBlank, modeclock = 0, line = 143\<rparr> \<and>
   steps (concat (replicate 143 [80, 172, 204])) \<lparr>mode = OamRead, modeclock = 0, line = 0\<rparr>
     = \<lparr>mode = VBlank, modeclock = 0, line = 143\<rparr> \<and>
   steps (204 # concat (replicate 142 [80, 172, 204])) Gpu_init
     = \<lparr>mode = VBlank, modeclock = 0, line = 143\<rparr>"
  by code_simp

text \<open>
  Claim C3, as stated: \<open>step c1\<close> then \<open>step c2\<close> equals \<open>step (c1 + c2)\<close>. It fails from
  \<open>{OamRead, 0, 0}\<close> with \<open>c1 = c2 = 100\<close>: the first call crosses 80 and drops the
  remainder 20, the single call of 200 crosses once and stops.
\<close>

theorem step_not_additive:
  "step 100 (step 100 \<lparr>mode = OamRead, modeclock = 0, line = 0\<rparr>)
     \<noteq> step (100 + 100) \<lparr>mode = OamRead, modeclock = 0, line = 0\<rparr>"
  by (simp add: step_def)

text \<open>
  Claim C3, amended: two calls equal the single call of the sum whenever the first call
  stays below the threshold of the current mode; a call that reaches the threshold sets the
  mode clock to 0 (the remainder is dropped).
\<close>

theorem step_additive_below_threshold:
  "(modeclock g + c1 < threshold (mode g) \<longrightarrow> step c2 (step c1 g) = step (c1 + c2) g) \<and>
   (threshold (mode g) \<le> modeclock g + c1 \<longrightarrow> modeclock (step c1 g) = 0)"
  by (cases "mode g") (simp_all add: step_def threshold_def Let_def add.assoc)

theorem step_additive_below_threshold_witness:
  "(modeclock \<lparr>mode = OamRead, modeclock = 0, line = 0\<rparr> + 30
      < threshold (mode \<lparr>mode = OamRead, modeclock = 0, line = 0\<rparr>)
    \<and> step 60 (step 30 \<lparr>mode = OamRead, modeclock = 0, line = 0\<rparr>)
        = step (30 + 60) \<lparr>mode = OamRead, modeclock = 0, line = 0\<rparr>) \<and>
   (threshold (mode \<lparr>mode = OamRead, modeclock = 0, line = 0\<rparr>)
      \<le> modeclock \<lparr>mode = OamRead, modeclock = 0, line = 0\<rparr> + 100
    \<and> modeclock (step 100 \<lparr>mode = OamRead, modeclock = 0, line = 0\<rparr>) = 0)"
  using step_additive_below_threshold [of "\<lparr>mode = OamRead, modeclock = 0, line = 0\<rparr>" 30 60]
    step_additive_below_threshold [of "\<lparr>mode = OamRead, modeclock = 0, line = 0\<rparr>" 100 0]
  by (simp add: threshold_def)

section \<open>Register-pair addressing\<close>

text \<open>
  Claim C4. The claim has the pair-addressed loads and stores use the address
  \<open>high * 256 + low\<close>. With both halves equal to 1 that address is 257, but
  \<^verbatim>\<open>r.h << 8 + r.l\<close> is \<open>1 << 9 = 512\<close>: the loads through HL, BC and DE read address 512
  and the store through HL writes it.
\<close>

theorem pair_address_is_shift:
  "LD_A_HL M (r\<lparr>h := 1, l := 1\<rparr>) m = (2, r\<lparr>h := 1, l := 1, a := rb M m 512\<rparr>, m) \<and>
   LD_HL_A M (r\<lparr>h := 1, l := 1\<rparr>) m = (2, r\<lparr>h := 1, l := 1\<rparr>, wb M m 512 (a r)) \<and>
   LD_A_BC M (r\<lparr>b := 1, c := 1\<rparr>) m = (2, r\<lparr>b := 1, c := 1, a := rb M m 512\<rparr>, m) \<and>
   LD_A_DE M (r\<lparr>d := 1, e := 1\<rparr>) m = (2, r\<lparr>d := 1, e := 1, a := rb M m 512\<rparr>, m) \<and>
   (1::int) * 256 + 1 \<noteq> 512"
  by (simp add: LD_A_HL_def LD_HL_A_def LD_A_BC_def LD_A_DE_def createOp_def js_shl_def toInt32_def)

section \<open>Loads and stores leave the flags alone\<close>

lemmas LD_defs =
  LD_A_A_def LD_A_B_def LD_A_C_def LD_A_D_def LD_A_E_def LD_A_H_def LD_A_L_def LD_A_BC_def
  LD_A_DE_def LD_A_HL_def LD_A_nn_def LD_A_n_def LD_B_A_def LD_B_B_def LD_B_C_def LD_B_D_def
  LD_B_E_def LD_B_H_def LD_B_L_def LD_B_BC_def LD_B_DE_def LD_B_HL_def LD_B_nn_def LD_B_n_def
  LD_C_A_def LD_C_B_def LD_C_C_def LD_C_D_def LD_C_E_def LD_C_H_def LD_C_L_def LD_C_BC_def
  LD_C_DE_def LD_C_HL_def LD_C_nn_def LD_C_n_def LD_D_A_def LD_D_B_def LD_D_C_def LD_D_D_def
  LD_D_E_def LD_D_H_def LD_D_L_def LD_D_BC_def LD_D_DE_def LD_D_HL_def LD_D_nn_def LD_D_n_def
  LD_E_A_def LD_E_B_def LD_E_C_def LD_E_D_def LD_E_E_def LD_E_H_def LD_E_L_def LD_E_BC_def
  LD_E_DE_def LD_E_HL_def LD_E_nn_def LD_E_n_def LD_H_A_def LD_H_B_def LD_H_C_def LD_H_D_def
  LD_H_E_def LD_H_H_def LD_H_L_def LD_H_BC_def LD_H_DE_def LD_H_HL_def LD_H_nn_def LD_H_n_def
  LD_L_A_def LD_L_B_def LD_L_C_def LD_L_D_def LD_L_E_def LD_L_H_def LD_L_L_def LD_L_BC_def
  LD_L_DE_def LD_L_HL_def LD_L_nn_def LD_L_n_def LD_HL_B_def LD_HL_C_def LD_HL_D_def LD_HL_E_def
  LD_HL_H_def LD_HL_L_def LD_HL_n_def LD_BC_A_def LD_DE_A_def LD_HL_A_def LD_nn_A_def
  LD_A_FFC_def LD_FFC_A_def LD_A_HLD_def LD_HLD_A_def LD_A_HLI_def LD_HLI_A_def LD_FFn_A_def
  LD_A_FFn_def LD_BC_nn_def LD_DE_nn_def LD_HL_nn_def LD_SP_nn_def LD_SP_HL_def LD_HL_SPn_def
  LD_nn_SP_def

text \<open>
  Claim C10. Every load and store of the table, whatever the registers and the memory,
  returns registers whose flags are the flags it was given.
\<close>

theorem LD_keeps_flags:
  "\<forall>op \<in> set LD_entries. f (fst (snd (op M r m))) = f r"
  unfolding LD_entries_def
  by (simp add: LD_defs createOp_def Let_def split_beta)

theorem LD_keeps_flags_witness:
  "f (fst (snd (LD_HLI_A Ram regs1 (\<lambda>x. 0)))) = 16"
proof -
  have "LD_HLI_A \<in> set (LD_entries :: (int \<Rightarrow> int) IOperation list)"
    by (simp add: LD_entries_def)
  from LD_keeps_flags [rule_format, OF this, of Ram regs1 "\<lambda>x. 0"]
  show ?thesis by (simp add: regs1_def)
qed

section \<open>Increment and decrement\<close>

text \<open>The fourteen 8-bit increment and decrement operations are \<open>inc\<close> and \<open>dec\<close> at their key.\<close>

lemma INC_DEC_ops:
  "INC_A M r m = (1, inc r Key_a 255, m)" "INC_B M r m = (1, inc r Key_b 255, m)"
  "INC_C M r m = (1, inc r Key_c 255, m)" "INC_D M r m = (1, inc r Key_d 255, m)"
  "INC_E M r m = (1, inc r Key_e 255, m)" "INC_H M r m = (1, inc r Key_h 255, m)"
  "INC_L M r m = (1, inc r Key_l 255, m)"
  "DEC_A M r m = (1, dec r Key_a 255, m)" "DEC_B M r m = (1, dec r Key_b 255, m)"
  "DEC_C M r m = (1, dec r Key_c 255, m)" "DEC_D M r m = (1, dec r Key_d 255, m)"
  "DEC_E M r m = (1, dec r Key_e 255, m)" "DEC_H M r m = (1, dec r Key_h 255, m)"
  "DEC_L M r m = (1, dec r Key_l 255, m)"
  by (simp_all add: createOp_def INC_A_def INC_B_def INC_C_def INC_D_def INC_E_def INC_H_def INC_L_def
      DEC_A_def DEC_B_def DEC_C_def DEC_D_def DEC_E_def DEC_H_def DEC_L_def)

text \<open>
  Claim C8, as stated: increment and decrement leave C as it was. With C set before
  (\<open>f = 0x10\<close>), C is clear after \<open>inc\<close> and after \<open>dec\<close> of register a.
\<close>

theorem inc_clears_C:
  "js_and (f regs1) Flags_C \<noteq> 0 \<and> js_and (f (inc regs1 Key_a 255)) Flags_C = 0 \<and>
   js_and (f (dec regs1 Key_a 255)) Flags_C = 0"
  by (simp add: regs1_def inc_def dec_def resetFlags_def Let_def js_and_def js_or_def toInt32_def Flags_C_def)

text \<open>
  Claim C8, amended: for each of the registers a, b, c, d, e, h, l and any flags before,
  \<open>inc\<close> and \<open>dec\<close> change the register by plus or minus 1 modulo 256, set Z exactly
  when the new value is 0, and clear C instead of keeping it. Nothing is said of N and H.
\<close>

theorem inc_dec_Z_and_C:
  "key \<notin> {Key_f, Key_pc, Key_sp} \<longrightarrow>
     getKey (inc r key 255) key = (getKey r key + 1) mod 256 \<and>
     (js_and (f (inc r key 255)) Flags_Z \<noteq> 0) = ((getKey r key + 1) mod 256 = 0) \<and>
     js_and (f (inc r key 255)) Flags_C = 0 \<and>
     getKey (dec r key 255) key = (getKey r key - 1) mod 256 \<and>
     (js_and (f (dec r key 255)) Flags_Z \<noteq> 0) = ((getKey r key - 1) mod 256 = 0) \<and>
     js_and (f (dec r key 255)) Flags_C = 0"
  by (cases key)
     (simp_all add: inc_def dec_def resetFlags_def Let_def js_and_255,
      simp_all add: js_and_def js_or_def toInt32_def Flags_Z_def Flags_C_def)

theorem inc_dec_Z_and_C_witness:
  "getKey (inc regs1 Key_l 255) Key_l = 0 \<and> js_and (f (inc regs1 Key_l 255)) Flags_Z \<noteq> 0 \<and>
   js_and (f (inc regs1 Key_l 255)) Flags_C = 0 \<and>
   getKey (dec regs1 Key_l 255) Key_l = 254 \<and> js_and (f (dec regs1 Key_l 255)) Flags_Z = 0 \<and>
   js_and (f (dec regs1 Key_l 255)) Flags_C = 0 \<and> js_and (f regs1) Flags_C = 16"
proof -
  have "Key_l \<notin> {Key_f, Key_pc, Key_sp}" by simp
  with inc_dec_Z_and_C [of Key_l regs1]
  show ?thesis by (simp add: regs1_def js_and_def toInt32_def Flags_C_def)
qed

section \<open>Dispatch\<close>

lemma oMap_length: "length (oMap_table :: 'm IOperation option list) = 256"
  by (simp add: oMap_table_def)

lemma oMap_7: "(oMap 7 :: 'm IOperation option) = None"
  by (simp add: oMap_def oMap_length) (simp add: oMap_table_def)

lemma oMap_203: "(oMap 203 :: 'm IOperation option) = None"
  by (simp add: oMap_def oMap_length) (simp add: oMap_table_def)

lemma toString16_7: "toString16 7 = ''7''"
  by (simp add: toString16_def hexDigits.simps hexDigit_def)

lemma toString16_203: "toString16 203 = ''cb''"
  by (simp add: toString16_def hexDigits.simps hexDigit_def)

text \<open>The hexadecimal text of a byte determines the byte.\<close>

lemma hexDigit_inj: "n < 16 \<Longrightarrow> k < 16 \<Longrightarrow> hexDigit n = hexDigit k \<Longrightarrow> n = k"
proof -
  assume n: "n < 16" and k: "k < 16" and eq: "hexDigit n = hexDigit k"
  have "distinct ''0123456789abcdef''" by simp
  moreover have "n < length ''0123456789abcdef''" "k < length ''0123456789abcdef''"
    using n k by simp_all
  ultimately show "n = k"
    using eq unfolding hexDigit_def by (simp only: nth_eq_iff_index_eq)
qed

lemma hexDigits_byte:
  assumes "n < 256"
  shows "hexDigits n = (if n < 16 then [hexDigit n] else [hexDigit (n div 16), hexDigit (n mod 16)])"
proof (cases "n < 16")
  case True
  then show ?thesis by (simp add: hexDigits.simps [of n])
next
  case False
  from assms have "n div 16 < 16" by simp
  then have "hexDigits (n div 16) = [hexDigit (n div 16)]"
    by (simp add: hexDigits.simps [of "n div 16"])
  with False show ?thesis by (simp add: hexDigits.simps [of n])
qed

lemma toString16_inj_bytes:
  assumes "0 \<le> x" "x < 256" "0 \<le> y" "y < 256" "toString16 x = toString16 y"
  shows "x = y"
proof -
  define n where "n = nat x"
  define k where "k = nat y"
  have nk: "n < 256" "k < 256" using assms by (simp_all add: n_def k_def)
  have eq: "hexDigits n = hexDigits k"
    using assms by (simp add: toString16_def n_def k_def)
  have "n = k"
  proof (cases "n < 16")
    case True
    with eq nk have k16: "k < 16" by (auto simp: hexDigits_byte split: if_splits)
    with True eq nk have "hexDigit n = hexDigit k" by (simp add: hexDigits_byte)
    from hexDigit_inj [OF True k16 this] show ?thesis .
  next
    case False
    with eq nk have k16: "\<not> k < 16" by (auto simp: hexDigits_byte split: if_splits)
    from False k16 eq nk
    have hi: "hexDigit (n div 16) = hexDigit (k div 16)"
      and lo: "hexDigit (n mod 16) = hexDigit (k mod 16)"
      by (simp_all add: hexDigits_byte)
    have bh: "n div 16 < 16" "k div 16 < 16" using nk by simp_all
    have bl: "n mod 16 < 16" "k mod 16 < 16" by simp_all
    from hexDigit_inj [OF bh hi] hexDigit_inj [OF bl lo]
    have "n div 16 = k div 16" "n mod 16 = k mod 16" .
    then show ?thesis by (metis div_mult_mod_eq)
  qed
  with assms show ?thesis by (simp add: n_def k_def)
qed

text \<open>
  Claim C6, as stated: an unpopulated opcode leaves the registers without any mutation. From
  the initial CPU over a memory that reads 7 everywhere, \<open>cycle\<close> throws for opcode 7 and
  the CPU it leaves is not the initial one: pc is 1. The error carries the opcode in its
  message and nothing else.
\<close>

theorem cycle_unpopulated_mutates_pc:
  "fst (cycle Ram Cpu_init (\<lambda>x. 7)) = Inl (Error ''opcode 0x7 not implemented'') \<and>
   fst (snd (cycle Ram Cpu_init (\<lambda>x. 7))) \<noteq> Cpu_init \<and>
   pc (Cpu_r (fst (snd (cycle Ram Cpu_init (\<lambda>x. 7))))) = 1"
  by (simp add: cycle_def Let_def Ram_def Cpu_init_def oMap_7 toString16_7)

text \<open>
  Claim C6, amended: when the slot of the byte read at pc is unpopulated, \<open>cycle\<close> throws
  an error whose message is \<^verbatim>\<open>opcode 0x\<close>, the byte in hexadecimal, \<^verbatim>\<open> not implemented\<close>; pc
  has been advanced by 1, and the other registers, the cycle counter and the memory are
  unchanged.
\<close>

theorem cycle_unpopulated:
  "(oMap (rb M m (pc (Cpu_r cpu))) :: 'm IOperation option) = None \<Longrightarrow>
   cycle (M :: 'm IMemory) cpu m =
     (Inl (Error (''opcode 0x'' @ toString16 (rb M m (pc (Cpu_r cpu))) @ '' not implemented'')),
      cpu\<lparr>Cpu_r := (Cpu_r cpu)\<lparr>pc := pc (Cpu_r cpu) + 1\<rparr>\<rparr>, m)"
  by (simp add: cycle_def Let_def)

theorem cycle_unpopulated_witness:
  "cycle Ram (Cpu_init\<lparr>Cpu_r := regs1\<rparr>) (\<lambda>x. 211) =
     (Inl (Error ''opcode 0xd3 not implemented''), Cpu_init\<lparr>Cpu_r := regs1\<lparr>pc := 1\<rparr>\<rparr>, \<lambda>x. 211)"
proof -
  have "(oMap (rb Ram (\<lambda>x. 211) (pc (Cpu_r (Cpu_init\<lparr>Cpu_r := regs1\<rparr>)))) :: (int \<Rightarrow> int) IOperation option) = None"
    by (simp add: Ram_def oMap_def oMap_length) (simp add: oMap_table_def)
  from cycle_unpopulated [OF this]
  show ?thesis
    by (simp add: Ram_def regs1_def toString16_def hexDigits.simps hexDigit_def)
qed

text \<open>
  Claim C7. The claim has opcode 0xCB followed by a populated CB byte run the entry of the
  CB table, at its cost, with pc advanced by 2. Slot 0x30 of \<open>oCbMap\<close> is \<open>SWAP_B\<close>, which
  on its own turns \<open>b = 0x34\<close> into \<open>0x43\<close> at cost 2; but \<open>cycle\<close> never reads \<open>oCbMap\<close>,
  and slot 0xCB of \<open>oMap\<close> is empty: on the bytes 0xCB, 0x30 it throws
  \<^verbatim>\<open>opcode 0xcb not implemented\<close>, with b still \<open>0x34\<close>, the cycle counter still 0 and pc
  at 1.
\<close>

theorem cycle_CB_SWAP_B_not_run:
  "(oCbMap 48 :: (int \<Rightarrow> int) IOperation option) = Some SWAP_B \<and>
   SWAP_B Ram regs1 (\<lambda>x. if x = 0 then 203 else 48)
     = (2, regs1\<lparr>b := 67, f := 0\<rparr>, \<lambda>x. if x = 0 then 203 else 48) \<and>
   cycle Ram \<lparr>Cpu_c = 0, Cpu_r = regs1\<rparr> (\<lambda>x. if x = 0 then 203 else 48)
     = (Inl (Error ''opcode 0xcb not implemented''),
        \<lparr>Cpu_c = 0, Cpu_r = regs1\<lparr>pc := 1\<rparr>\<rparr>, \<lambda>x. if x = 0 then 203 else 48) \<and>
   b regs1 = 52"
  by (simp add: oCbMap_def oCbMap_table_def cycle_def Let_def Ram_def regs1_def oMap_203 toString16_203
      SWAP_B_def createOp_def swap_def resetFlags_def js_and_def js_or_def js_shl_def js_shr_def toInt32_def)

section \<open>The stack\<close>

lemma reads_back_Ram: "reads_back Ram"
  by (simp add: reads_back_def Ram_def)

lemmas stack_defs = PUSH_AF_def PUSH_BC_def PUSH_DE_def PUSH_HL_def
  POP_AF_def POP_BC_def POP_DE_def POP_HL_def

text \<open>
  Claim C9. Over a memory where a written byte reads back, with sp between 0x0002 and
  0xFFFE, PUSH of a pair followed by POP of the same pair gives back the very registers it
  started from, sp included, whatever bytes the two halves of the pair hold, and whatever
  values \<open>x\<close> and \<open>y\<close> the two halves are overwritten with between the PUSH and the POP:
  the POP restores both halves from the stack. For AF, BC, DE and HL.
\<close>

theorem push_pop_roundtrip:
  assumes "reads_back M" and "2 \<le> sp r" and "sp r \<le> 65534"
  shows "(0 \<le> a r \<and> a r \<le> 255 \<and> 0 \<le> f r \<and> f r \<le> 255 \<longrightarrow>
            (let (c1, r1, m1) = PUSH_AF M r m;
                 (c2, r2, m2) = POP_AF M (r1\<lparr>a := x, f := y\<rparr>) m1 in r2) = r) \<and>
         (0 \<le> b r \<and> b r \<le> 255 \<and> 0 \<le> c r \<and> c r \<le> 255 \<longrightarrow>
            (let (c1, r1, m1) = PUSH_BC M r m;
                 (c2, r2, m2) = POP_BC M (r1\<lparr>b := x, c := y\<rparr>) m1 in r2) = r) \<and>
         (0 \<le> d r \<and> d r \<le> 255 \<and> 0 \<le> e r \<and> e r \<le> 255 \<longrightarrow>
            (let (c1, r1, m1) = PUSH_DE M r m;
                 (c2, r2, m2) = POP_DE M (r1\<lparr>d := x, e := y\<rparr>) m1 in r2) = r) \<and>
         (0 \<le> h r \<and> h r \<le> 255 \<and> 0 \<le> l r \<and> l r \<le> 255 \<longrightarrow>
            (let (c1, r1, m1) = PUSH_HL M r m;
                 (c2, r2, m2) = POP_HL M (r1\<lparr>h := x, l := y\<rparr>) m1 in r2) = r)"
proof -
  have rd: "\<And>m x v y. 0 \<le> x \<Longrightarrow> x \<le> 65535 \<Longrightarrow> 0 \<le> y \<Longrightarrow> y \<le> 65535 \<Longrightarrow> 0 \<le> v \<Longrightarrow> v \<le> 255
              \<Longrightarrow> rb M (wb M m x v) y = (if y = x then v else rb M m y)"
    using assms(1) by (simp add: reads_back_def)
  show ?thesis
    using assms(2-3)
    by (simp add: stack_defs createOp_def Let_def rd)
qed

theorem push_pop_roundtrip_witness:
  "(let (c1, r1, m1) = PUSH_AF Ram regs1 (\<lambda>x. 0);
        (c2, r2, m2) = POP_AF Ram (r1\<lparr>a := 0, f := 0\<rparr>) m1 in r2) = regs1 \<and>
   (let (c1, r1, m1) = PUSH_BC Ram regs1 (\<lambda>x. 0);
        (c2, r2, m2) = POP_BC Ram (r1\<lparr>b := 0, c := 0\<rparr>) m1 in r2) = regs1 \<and>
   (let (c1, r1, m1) = PUSH_DE Ram regs1 (\<lambda>x. 0);
        (c2, r2, m2) = POP_DE Ram (r1\<lparr>d := 0, e := 0\<rparr>) m1 in r2) = regs1 \<and>
   (let (c1, r1, m1) = PUSH_HL Ram regs1 (\<lambda>x. 0);
        (c2, r2, m2) = POP_HL Ram (r1\<lparr>h := 0, l := 0\<rparr>) m1 in r2) = regs1 \<and>
   PUSH_BC Ram regs1 (\<lambda>x. 0) = (4, regs1\<lparr>sp := 65532\<rparr>, (\<lambda>x. 0)(65533 := 52, 65532 := 86)) \<and>
   b regs1 = 52 \<and> c regs1 = 86"
proof -
  have sp: "2 \<le> sp regs1" "sp regs1 \<le> 65534"
    by (simp_all add: regs1_def)
  have bytes: "0 \<le> a regs1 \<and> a regs1 \<le> 255 \<and> 0 \<le> f regs1 \<and> f regs1 \<le> 255"
    "0 \<le> b regs1 \<and> b regs1 \<le> 255 \<and> 0 \<le> c regs1 \<and> c regs1 \<le> 255"
    "0 \<le> d regs1 \<and> d regs1 \<le> 255 \<and> 0 \<le> e regs1 \<and> e regs1 \<le> 255"
    "0 \<le> h regs1 \<and> h regs1 \<le> 255 \<and> 0 \<le> l regs1 \<and> l regs1 \<le> 255"
    by (simp_all add: regs1_def)
  have "PUSH_BC Ram regs1 (\<lambda>x. 0) = (4, regs1\<lparr>sp := 65532\<rparr>, (\<lambda>x. 0)(65533 := 52, 65532 := 86))"
    by (simp add: PUSH_BC_def createOp_def Let_def regs1_def Ram_def)
  moreover have "b regs1 = 52 \<and> c regs1 = 86" by (simp add: regs1_def)
  ultimately show ?thesis
    using push_pop_roundtrip [OF reads_back_Ram sp, of "\<lambda>x. 0" 0 0] bytes
    by simp
qed

section \<open>What every instruction keeps\<close>


lemma mod_256_ge: "0 \<le> (x::int) mod 256"
  by simp


























































end
